theory Spec2Isabelle
  imports Main
begin

section \<open>The smartlight server: a shallow embedding of smartlighting.py\<close>

text \<open>
  The module creates a Flask application, registers two routes and, when it is run as a
  script, reads the port from the environment and starts the development server:
  \<^verbatim>\<open>
  app = Flask(__name__, static_folder="static", template_folder="templates")

  @app.route("/")
  def index():
      return render_template("index.html")

  @app.route("/static/<path:filename>")
  def static_files(filename):
      return send_from_directory(app.static_folder, filename)

  if __name__ == "__main__":
      port = int(os.environ.get("PORT", 5000))
      app.run(host="0.0.0.0", port=port, debug=False)
  \<close>
  The embedding follows the module as far as its own text goes. A call into Flask is a
  value of the model (the function called and the arguments it receives); what Flask
  does with the call is not part of the module.
\<close>

subsection \<open>Python values\<close>

text \<open>
  \<open>os.environ\<close> maps strings to strings. \<open>os.environ.get("PORT", 5000)\<close> is the
  string stored under the key, or the integer default, so the argument of \<open>int\<close> is a
  string or an integer. A Python \<open>str\<close> is modelled as a \<open>string\<close> whose characters are
  its code points, which covers the code points below 256.
\<close>

datatype pyval = PyInt int | PyStr string

datatype exn = ValueError

type_synonym environ = "string \<rightharpoonup> string"

definition environ_get :: "environ \<Rightarrow> string \<Rightarrow> pyval \<Rightarrow> pyval" where
  "environ_get env key dflt = (case env key of None \<Rightarrow> dflt | Some v \<Rightarrow> PyStr v)"

subsection \<open>The conversion \<open>int(x)\<close>\<close>

text \<open>
  For a string, \<open>int\<close> (base 10) skips leading whitespace, reads an optional sign,
  refuses a leading underscore, scans digits and underscores while remembering the
  previous character (two underscores in a row and a trailing underscore are refused),
  requires that the scan consumed something, skips trailing whitespace and requires
  the end of the string. Every refusal raises \<open>ValueError\<close>.

  Among the code points below 256 the whitespace that \<open>int\<close> skips is tab, line feed,
  vertical tab, form feed, carriage return, space, and the two non-ASCII spaces
  U+0085 and U+00A0; the only decimal digits are \<open>0\<close> to \<open>9\<close>. The integers are
  unbounded, and the interpreter's optional cap on the length of a converted string is
  a setting of the interpreter, not of this module, and is not modelled.
\<close>

definition is_space :: "char \<Rightarrow> bool" where
  "is_space c \<longleftrightarrow>
     c \<in> {CHR 0x09, CHR 0x0A, CHR 0x0B, CHR 0x0C, CHR 0x0D, CHR '' '', CHR 0x85, CHR 0xA0}"

definition is_digit :: "char \<Rightarrow> bool" where
  "is_digit c \<longleftrightarrow> 48 \<le> (of_char c :: nat) \<and> (of_char c :: nat) \<le> 57"

definition digit_value :: "char \<Rightarrow> nat" where
  "digit_value c = of_char c - 48"

text \<open>
  The scanning loop: \<open>prev\<close> is the previous character (initially the null character),
  \<open>acc\<close> the value read so far. It returns the value together with the unread rest, or
  \<open>None\<close> where the loop refuses the input.
\<close>

fun scan :: "char \<Rightarrow> nat \<Rightarrow> string \<Rightarrow> (nat \<times> string) option" where
  "scan prev acc [] = (if prev = CHR ''_'' then None else Some (acc, []))"
| "scan prev acc (c # cs) =
     (if is_digit c then scan c (10 * acc + digit_value c) cs
      else if c = CHR ''_'' then (if prev = CHR ''_'' then None else scan c acc cs)
      else if prev = CHR ''_'' then None
      else Some (acc, c # cs))"

definition take_sign :: "string \<Rightarrow> int \<times> string" where
  "take_sign str =
     (case str of
        [] \<Rightarrow> (1, str)
      | c # rest \<Rightarrow>
          if c = CHR ''+'' then (1, rest)
          else if c = CHR ''-'' then (- 1, rest)
          else (1, str))"

definition unsigned_from_string :: "string \<Rightarrow> exn + nat" where
  "unsigned_from_string str =
     (if (case str of [] \<Rightarrow> False | c # _ \<Rightarrow> c = CHR ''_'') then Inl ValueError
      else
        (case scan (CHR 0x00) 0 str of
           None \<Rightarrow> Inl ValueError
         | Some (z, rest) \<Rightarrow>
             if rest = str then Inl ValueError
             else if dropWhile is_space rest \<noteq> [] then Inl ValueError
             else Inr z))"

definition int_from_string :: "string \<Rightarrow> exn + int" where
  "int_from_string s =
     (case take_sign (dropWhile is_space s) of
        (sign, str) \<Rightarrow>
          (case unsigned_from_string str of
             Inl e \<Rightarrow> Inl e
           | Inr z \<Rightarrow> Inr (sign * int z)))"

fun py_int :: "pyval \<Rightarrow> exn + int" where
  "py_int (PyInt n) = Inr n"
| "py_int (PyStr s) = int_from_string s"

subsection \<open>The script\<close>

text \<open>
  The block under \<open>if __name__ == "__main__"\<close>, for a run of the module as a script.
  Its result is the exception that leaves the block, or the call of \<open>app.run\<close> with the
  arguments it receives. Nothing in the module catches an exception, and \<open>app.run\<close> is
  the last statement, reached only after the conversion has returned.
\<close>

record run_call =
  host :: string
  port :: int
  debug :: bool

definition main :: "environ \<Rightarrow> exn + run_call" where
  "main env =
     (case py_int (environ_get env ''PORT'' (PyInt 5000)) of
        Inl e \<Rightarrow> Inl e
      | Inr p \<Rightarrow> Inr \<lparr>host = ''0.0.0.0'', port = p, debug = False\<rparr>)"

text \<open>
  An exception that leaves the top level of a script ends the interpreter with status 1
  before any later statement runs. Once \<open>app.run\<close> has been called the status is the
  server's business.
\<close>

definition exit_status :: "exn + run_call \<Rightarrow> nat option" where
  "exit_status r = (case r of Inl e \<Rightarrow> Some 1 | Inr c \<Rightarrow> None)"

subsection \<open>The two routes\<close>

text \<open>
  Both view functions hand their work to Flask in a single call: \<open>index\<close> takes no
  argument and names the template, \<open>static_files\<close> passes the static folder the
  application was created with and the file name of the URL, unchanged. The response
  to either request is what Flask makes of that call.
\<close>

datatype flask_call = RenderTemplate string | SendFromDirectory string string

definition static_folder :: string where
  "static_folder = ''static''"

definition index :: flask_call where
  "index = RenderTemplate ''index.html''"

definition static_files :: "string \<Rightarrow> flask_call" where
  "static_files filename = SendFromDirectory static_folder filename"

subsection \<open>Specification side: integer literals and decimal representations\<close>

text \<open>
  A valid integer literal for \<open>int\<close>: whitespace, an optional sign directly before the
  digits, one or more digits with single underscores allowed between two digits,
  whitespace.
\<close>

fun ws_only :: "string \<Rightarrow> bool" where
  "ws_only [] = True"
| "ws_only (c # cs) = (is_space c \<and> ws_only cs)"

fun after_digit :: "string \<Rightarrow> bool" where
  "after_digit [] = True"
| "after_digit (c # cs) =
     (if is_digit c then after_digit cs
      else if c = CHR ''_'' then
        (case cs of [] \<Rightarrow> False | d # ds \<Rightarrow> is_digit d \<and> after_digit ds)
      else ws_only (c # cs))"

definition digits_part :: "string \<Rightarrow> bool" where
  "digits_part s = (case s of [] \<Rightarrow> False | c # cs \<Rightarrow> is_digit c \<and> after_digit cs)"

definition signed_part :: "string \<Rightarrow> bool" where
  "signed_part s =
     (case s of
        [] \<Rightarrow> False
      | c # cs \<Rightarrow> if c = CHR ''+'' \<or> c = CHR ''-'' then digits_part cs else digits_part s)"

definition int_literal :: "string \<Rightarrow> bool" where
  "int_literal s = signed_part (dropWhile is_space s)"





section \<open>Properties\<close>

subsection \<open>Characters\<close>

lemma digit_not_underscore: "is_digit c \<Longrightarrow> c \<noteq> CHR ''_''"
  by (auto simp: is_digit_def)



lemma ws_only_dropWhile: "ws_only r \<longleftrightarrow> dropWhile is_space r = []"
  by (induction r) auto

subsection \<open>The conversion accepts exactly the integer literals\<close>

text \<open>The scanning loop never returns more than it was given.\<close>

lemma scan_length: "scan prev acc s = Some (z, r) \<Longrightarrow> length r \<le> length s"
  by (induction prev acc s rule: scan.induct) (auto split: if_splits)

lemma scan_consumes:
  "is_digit c \<Longrightarrow> scan prev acc (c # cs) = Some (z, r) \<Longrightarrow> r \<noteq> c # cs"
proof -
  assume d: "is_digit c" and s: "scan prev acc (c # cs) = Some (z, r)"
  from d s have "scan c (10 * acc + digit_value c) cs = Some (z, r)" by simp
  then have "length r \<le> length cs" by (rule scan_length)
  then show ?thesis by auto
qed

text \<open>
  The loop stops before trailing whitespace exactly on the inputs the grammar allows
  after a digit; after an underscore a digit has to follow.
\<close>

lemma scan_accepts:
  "(\<exists>z r. scan prev acc s = Some (z, r) \<and> ws_only r) \<longleftrightarrow>
     (if prev = CHR ''_'' then (case s of [] \<Rightarrow> False | d # ds \<Rightarrow> is_digit d \<and> after_digit ds)
      else after_digit s)"
proof (induction prev acc s rule: scan.induct)
  case (1 prev acc)
  then show ?case by simp
next
  case (2 prev acc c cs)
  then show ?case
    by (auto simp: digit_not_underscore split: list.splits)
qed

lemma unsigned_accepts:
  "(\<exists>z. unsigned_from_string str = Inr z) \<longleftrightarrow> digits_part str"
proof (cases str)
  case Nil
  then show ?thesis by (simp add: unsigned_from_string_def digits_part_def)
next
  case (Cons c cs)
  show ?thesis
  proof (cases "is_digit c")
    case True
    have nz: "c \<noteq> CHR ''_''" using True by (rule digit_not_underscore)
    have acc: "(\<exists>z r. scan c (10 * 0 + digit_value c) cs = Some (z, r) \<and> ws_only r) \<longleftrightarrow> after_digit cs"
      using scan_accepts [of c "10 * 0 + digit_value c" cs] nz by simp
    have ne: "\<And>z r. scan c (digit_value c) cs = Some (z, r) \<Longrightarrow> r \<noteq> c # cs"
      using scan_consumes [OF True, of "CHR 0x00" 0 cs] True by simp
    show ?thesis
    proof
      assume "\<exists>z. unsigned_from_string str = Inr z"
      then obtain z where z: "unsigned_from_string str = Inr z" ..
      then obtain r where "scan c (digit_value c) cs = Some (z, r)" "dropWhile is_space r = []"
        using Cons True nz
        by (auto simp: unsigned_from_string_def split: option.splits if_splits)
      then have "after_digit cs" using acc by (auto simp: ws_only_dropWhile)
      then show "digits_part str" using Cons True by (simp add: digits_part_def)
    next
      assume "digits_part str"
      then have "after_digit cs" using Cons by (simp add: digits_part_def)
      then obtain z r where zr: "scan c (digit_value c) cs = Some (z, r)" "ws_only r"
        using acc by auto
      then have "unsigned_from_string str = Inr z"
        using Cons True nz ne [OF zr(1)]
        by (simp add: unsigned_from_string_def ws_only_dropWhile)
      then show "\<exists>z. unsigned_from_string str = Inr z" ..
    qed
  next
    case False
    then show ?thesis using Cons
      by (auto simp: unsigned_from_string_def digits_part_def split: option.splits)
  qed
qed

lemma int_from_string_accepts:
  "(\<exists>n. int_from_string s = Inr n) \<longleftrightarrow> int_literal s"
proof -
  define t where "t = dropWhile is_space s"
  have sgn: "(\<exists>z. unsigned_from_string (snd (take_sign t)) = Inr z) \<longleftrightarrow> signed_part t"
  proof (cases t)
    case Nil
    then show ?thesis
      by (simp add: take_sign_def signed_part_def unsigned_accepts digits_part_def)
  next
    case (Cons c cs)
    then show ?thesis
      by (simp add: take_sign_def signed_part_def unsigned_accepts)
  qed
  have "(\<exists>n. int_from_string s = Inr n) \<longleftrightarrow> (\<exists>z. unsigned_from_string (snd (take_sign t)) = Inr z)"
    by (auto simp: int_from_string_def t_def split: prod.splits sum.splits)
  then show ?thesis using sgn by (simp add: int_literal_def t_def)
qed

lemma int_from_string_refuses:
  "int_from_string s = Inl ValueError \<longleftrightarrow> \<not> int_literal s"
proof -
  have "int_from_string s = Inl ValueError \<longleftrightarrow> \<not> (\<exists>n. int_from_string s = Inr n)"
  proof (cases "int_from_string s")
    case (Inl e)
    then show ?thesis by (cases e) simp
  next
    case (Inr n)
    then show ?thesis by simp
  qed
  then show ?thesis by (simp add: int_from_string_accepts)
qed

subsection \<open>The conversion reads a decimal representation back\<close>










subsection \<open>Startup\<close>

lemma main_port_set:
  "env ''PORT'' = Some s \<Longrightarrow>
   main env = (case int_from_string s of
                 Inl e \<Rightarrow> Inl e
               | Inr p \<Rightarrow> Inr \<lparr>host = ''0.0.0.0'', port = p, debug = False\<rparr>)"
  by (simp add: main_def environ_get_def)





text \<open>
  C10: when \<open>PORT\<close> is set to a string that is not a valid integer literal, the script
  ends with \<open>ValueError\<close> raised by the conversion. The exception leaves the top level,
  so the process ends with status 1, and \<open>app.run\<close> is never called: no listener is
  bound and no request is served.
\<close>

theorem invalid_port_aborts_startup:
  "env ''PORT'' = Some s \<Longrightarrow> \<not> int_literal s \<Longrightarrow>
   main env = Inl ValueError \<and> exit_status (main env) = Some 1"
proof -
  assume set: "env ''PORT'' = Some s" and bad: "\<not> int_literal s"
  from bad have "int_from_string s = Inl ValueError"
    by (simp add: int_from_string_refuses)
  with set have "main env = Inl ValueError"
    by (simp add: main_port_set)
  then show ?thesis by (simp add: exit_status_def)
qed

theorem invalid_port_aborts_startup_witness:
  "main [''PORT'' \<mapsto> ''abc''] = Inl ValueError \<and>
   exit_status (main [''PORT'' \<mapsto> ''abc'']) = Some 1"
proof -
  have set: "[''PORT'' \<mapsto> ''abc''] ''PORT'' = Some ''abc''" by simp
  have bad: "\<not> int_literal ''abc''"
    by (simp add: int_literal_def signed_part_def digits_part_def is_space_def is_digit_def)
  show ?thesis
    using invalid_port_aborts_startup [of "[''PORT'' \<mapsto> ''abc'']" "''abc''"] set bad
    by blast
qed

end
